theory Spec2Isabelle
  imports Main "HOL-Library.Sublist"
begin

section \<open>JavaScript values and built-ins\<close>

text \<open>
  Strings of the program are modelled as \<open>string\<close>. The three ECMAScript string
  built-ins the code calls (\<open>String.prototype.toLowerCase\<close>, \<open>String.prototype.trim\<close>
  and \<open>encodeURIComponent\<close>) are driven by Unicode tables that are not part of the
  repository, so every function that uses them takes them as the record \<open>B\<close>; what is
  proved holds for every choice of the three functions. \<open>js_ascii\<close> below is their
  restriction to ASCII text and is the instance the concrete evaluations use.
\<close>

record js_builtins =
  toLowerCase :: "string \<Rightarrow> string"
  trim :: "string \<Rightarrow> string"
  encodeURIComponent :: "string \<Rightarrow> string"

definition ascii_lower_char :: "char \<Rightarrow> char" where
  "ascii_lower_char c =
     (case List.find (\<lambda>p. fst p = c)
             (zip ''ABCDEFGHIJKLMNOPQRSTUVWXYZ'' ''abcdefghijklmnopqrstuvwxyz'') of
        Some p \<Rightarrow> snd p
      | None \<Rightarrow> c)"

definition ascii_space :: "char \<Rightarrow> bool" where
  "ascii_space c = (c \<in> set [CHR '' '', CHR 0x09, CHR 0x0A, CHR 0x0B, CHR 0x0C, CHR 0x0D])"

definition ascii_trim :: "string \<Rightarrow> string" where
  "ascii_trim s = rev (dropWhile ascii_space (rev (dropWhile ascii_space s)))"

definition uri_unreserved :: "char \<Rightarrow> bool" where
  "uri_unreserved c =
     (c \<in> set (''ABCDEFGHIJKLMNOPQRSTUVWXYZ'' @ ''abcdefghijklmnopqrstuvwxyz'' @
                ''0123456789'' @ ''-_.!~*()'' @ [CHR 0x27]))"

definition hex_digit :: "nat \<Rightarrow> char" where
  "hex_digit n = ''0123456789ABCDEF'' ! (n mod 16)"

definition percent_encode :: "char \<Rightarrow> string" where
  "percent_encode c =
     (if uri_unreserved c then [c]
      else [CHR ''%'', hex_digit (of_char c div 16), hex_digit (of_char c)])"

definition js_ascii :: js_builtins where
  "js_ascii =
     \<lparr> toLowerCase = map ascii_lower_char,
       trim = ascii_trim,
       encodeURIComponent = (\<lambda>s. concat (map percent_encode s)) \<rparr>"

text \<open>
  What a \<open>throw\<close> carries: an \<open>Error\<close> object with its message, or any other value.
  A rejected promise and a thrown exception are the left summand of a result.
\<close>

datatype thrown = Error string | NonError

text \<open>
  JSON payloads, typed \<open>any\<close> in the source. \<open>JUndefined\<close> is the value of a missing
  member. Numbers are integers.
\<close>

datatype json =
    JUndefined
  | JNull
  | JBool bool
  | JNum int
  | JStr string
  | JArr "json list"
  | JObj "(string \<times> json) list"

text \<open>Member access \<open>v.k\<close>: a \<open>TypeError\<close> on \<open>null\<close> and \<open>undefined\<close>.\<close>

fun member :: "json \<Rightarrow> string \<Rightarrow> thrown + json" where
  "member JUndefined k = Inl (Error ''TypeError'')"
| "member JNull k = Inl (Error ''TypeError'')"
| "member (JObj kvs) k = (case map_of kvs k of Some v \<Rightarrow> Inr v | None \<Rightarrow> Inr JUndefined)"
| "member v k = Inr JUndefined"

fun truthy :: "json \<Rightarrow> bool" where
  "truthy JUndefined = False"
| "truthy JNull = False"
| "truthy (JBool b) = b"
| "truthy (JNum n) = (n \<noteq> 0)"
| "truthy (JStr s) = (s \<noteq> [])"
| "truthy v = True"

text \<open>Decimal rendering of a number, as a template literal and \<open>toString\<close> give it.\<close>

fun show_nat :: "nat \<Rightarrow> string" where
  "show_nat n =
     (if n < 10 then [''0123456789'' ! n]
      else show_nat (n div 10) @ [''0123456789'' ! (n mod 10)])"

declare show_nat.simps [simp del]

definition show_int :: "int \<Rightarrow> string" where
  "show_int i = (if i < 0 then CHR ''-'' # show_nat (nat (- i)) else show_nat (nat i))"

text \<open>
  The values a counter of the program takes: a JavaScript number that is \<open>NaN\<close>, an
  infinity, or a double with an integer value (\<open>-0\<close> is \<open>Finite 0\<close>: the program
  does not tell them apart). \<open>to_double\<close> rounds an integer to the nearest double,
  ties to even, as every arithmetic operation of the language does: 53 significant
  bits are kept, and what reaches \<open>2 ^ 1024\<close> is an infinity.
\<close>

datatype number = NaN | NegInfinity | Infinity | Finite int

function bitlen :: "int \<Rightarrow> nat" where
  "bitlen n = (if n \<le> 0 then 0 else Suc (bitlen (n div 2)))"
  by pat_completeness auto
termination
  by (relation "measure nat") auto

declare bitlen.simps [simp del]

definition to_double :: "int \<Rightarrow> number" where
  "to_double n =
     (let a = \<bar>n\<bar>;
          e = (if bitlen a \<le> 53 then 0 else bitlen a - 53);
          q = a div 2 ^ e;
          r = a mod 2 ^ e;
          up = (2 * r > 2 ^ e \<or> (2 * r = 2 ^ e \<and> odd q));
          m = (if up then q + 1 else q) * 2 ^ e
      in if bitlen m > 1024 then (if n < 0 then NegInfinity else Infinity)
         else Finite (if n < 0 then - m else m))"

text \<open>\<open>x + k\<close> and \<open>x >= k\<close> for a counter \<open>x\<close> and an integer literal \<open>k\<close>.\<close>

definition js_plus :: "number \<Rightarrow> int \<Rightarrow> number" where
  "js_plus x k = (case x of Finite n \<Rightarrow> to_double (n + k) | other \<Rightarrow> other)"

definition js_ge :: "number \<Rightarrow> int \<Rightarrow> bool" where
  "js_ge x k =
     (case x of Finite n \<Rightarrow> n \<ge> k | Infinity \<Rightarrow> True | NegInfinity \<Rightarrow> False | NaN \<Rightarrow> False)"

text \<open>
  \<open>parseInt(s, 10)\<close> and \<open>Number.prototype.toString\<close> are built-ins too, and are
  taken as the record \<open>N\<close>. \<open>js_decimal\<close> is the instance the concrete evaluations
  use: it reads an optional sign and the decimal digits that follow leading ASCII
  white space, and prints an integer in decimal digits.
\<close>

record js_numbers =
  parseInt :: "string \<Rightarrow> number"
  numberToString :: "number \<Rightarrow> string"

definition digit_value :: "char \<Rightarrow> int" where
  "digit_value c =
     (case List.find (\<lambda>p. fst p = c) (zip ''0123456789'' [0, 1, 2, 3, 4, 5, 6, 7, 8, 9]) of
        Some p \<Rightarrow> snd p
      | None \<Rightarrow> 0)"

definition decimal_parseInt :: "string \<Rightarrow> number" where
  "decimal_parseInt s =
     (let s1 = dropWhile ascii_space s;
          negative = (s1 \<noteq> [] \<and> hd s1 = CHR ''-'');
          s2 = (if s1 \<noteq> [] \<and> (hd s1 = CHR ''-'' \<or> hd s1 = CHR ''+'') then tl s1 else s1);
          ds = takeWhile (\<lambda>c. c \<in> set ''0123456789'') s2;
          v = foldl (\<lambda>acc c. 10 * acc + digit_value c) 0 ds
      in if ds = [] then NaN else to_double (if negative then - v else v))"

definition decimal_toString :: "number \<Rightarrow> string" where
  "decimal_toString x =
     (case x of
        NaN \<Rightarrow> ''NaN''
      | Infinity \<Rightarrow> ''Infinity''
      | NegInfinity \<Rightarrow> ''-Infinity''
      | Finite n \<Rightarrow> show_int n)"

definition js_decimal :: js_numbers where
  "js_decimal = \<lparr> parseInt = decimal_parseInt, numberToString = decimal_toString \<rparr>"

text \<open>\<open>String(v)\<close> for the message of \<open>new Error(v)\<close>.\<close>

fun join_comma :: "string list \<Rightarrow> string" where
  "join_comma [] = []"
| "join_comma [x] = x"
| "join_comma (x # y # ys) = x @ '','' @ join_comma (y # ys)"

fun to_message :: "json \<Rightarrow> string" where
  "to_message (JStr s) = s"
| "to_message (JNum n) = show_int n"
| "to_message (JBool b) = (if b then ''true'' else ''false'')"
| "to_message JNull = ''null''"
| "to_message JUndefined = ''undefined''"
| "to_message (JArr vs) =
     join_comma (map (\<lambda>v. if v = JNull \<or> v = JUndefined then [] else to_message v) vs)"
| "to_message (JObj kvs) = ''[object Object]''"

text \<open>\<open>s.split(sep)\<close> for a separator string.\<close>

function split :: "string \<Rightarrow> string \<Rightarrow> string \<Rightarrow> string list" where
  "split sep acc [] = [rev acc]"
| "split sep acc (c # cs) =
     (if sep \<noteq> [] \<and> prefix sep (c # cs)
      then rev acc # split sep [] (drop (length sep) (c # cs))
      else split sep (c # acc) cs)"
  by pat_completeness auto
termination
  by (relation "measure (\<lambda>(sep, acc, s). length s)") auto

definition js_split :: "string \<Rightarrow> string \<Rightarrow> string list" where
  "js_split s sep = (if sep = [] then map (\<lambda>c. [c]) s else split sep [] s)"

section \<open>lib/api.ts: the API client\<close>

subsection \<open>The browser and the network\<close>

text \<open>
  A \<open>Response\<close> as the code reads it: \<open>status\<close>, \<open>statusText\<close>, the
  \<open>content-type\<close> header (\<open>None\<close> when absent) and the outcome of \<open>response.json()\<close>,
  which throws on a body that is not JSON.
\<close>

record response =
  status :: nat
  statusText :: string
  contentType :: "string option"
  json_body :: "thrown + json"

definition ok :: "response \<Rightarrow> bool" where
  "ok r = (200 \<le> status r \<and> status r \<le> 299)"

text \<open>\<open>fetch\<close> either rejects or resolves with a response.\<close>

datatype fetch_outcome = Rejects thrown | Responds response

text \<open>
  The network answers a URL with the time the answer takes, in milliseconds, and the
  outcome.
\<close>

type_synonym network = "string \<Rightarrow> int \<times> fetch_outcome"

text \<open>
  The state the client works on: the cookies of the document (name and value of each
  cookie of path \<open>/\<close>), the module-level \<open>wordCache\<close>, the clock \<open>Date.now()\<close> reads,
  and the URLs fetched so far, oldest first.
\<close>

record api_state =
  cookies :: "(string \<times> string) list"
  wordCache :: "string \<rightharpoonup> (json \<times> int)"
  clock :: int
  requests :: "string list"
  baseURL :: string

definition COOKIE_NAME :: string where
  "COOKIE_NAME = ''auth_token''"

definition CACHE_DURATION :: int where
  "CACHE_DURATION = 1000 * 60 * 30"

fun join_cookies :: "string list \<Rightarrow> string" where
  "join_cookies [] = []"
| "join_cookies [x] = x"
| "join_cookies (x # y # ys) = x @ ''; '' @ join_cookies (y # ys)"

text \<open>Reading \<open>document.cookie\<close>: the pairs \<open>name=value\<close>, joined by \<open>; \<close>.\<close>

definition document_cookie :: "api_state \<Rightarrow> string" where
  "document_cookie s = join_cookies (map (\<lambda>(n, v). n @ ''='' @ v) (cookies s))"

definition getCookie :: "api_state \<Rightarrow> string \<Rightarrow> string option" where
  "getCookie s name =
     (let value = ''; '' @ document_cookie s;
          parts = js_split value (''; '' @ name @ ''='')
      in if length parts = 2
         then (case js_split (last parts) '';'' of
                 [] \<Rightarrow> None
               | v # _ \<Rightarrow> (if v = [] then None else Some v))
         else None)"

text \<open>
  \<open>deleteCookie\<close> assigns \<open>name=; path=/; expires=Thu, 01 Jan 1970 00:00:00 GMT\<close>
  to \<open>document.cookie\<close>: the browser drops the cookie of that name and path.
\<close>

definition deleteCookie :: "string \<Rightarrow> api_state \<Rightarrow> api_state" where
  "deleteCookie name s = s\<lparr>cookies := filter (\<lambda>(n, v). n \<noteq> name) (cookies s)\<rparr>"

definition getToken :: "api_state \<Rightarrow> string option" where
  "getToken s = getCookie s COOKIE_NAME"

definition removeToken :: "api_state \<Rightarrow> api_state" where
  "removeToken s = deleteCookie COOKIE_NAME s"

definition isAuthenticated :: "api_state \<Rightarrow> bool" where
  "isAuthenticated s = (getToken s \<noteq> None)"

subsection \<open>request\<close>

text \<open>\<open>try { body } catch { handler }\<close> on results.\<close>

definition try_catch :: "'s \<times> (thrown + 'a) \<Rightarrow> ('s \<Rightarrow> thrown \<Rightarrow> 's \<times> (thrown + 'a)) \<Rightarrow> 's \<times> (thrown + 'a)" where
  "try_catch r handler = (case r of (s, Inl e) \<Rightarrow> handler s e | (s, Inr v) \<Rightarrow> (s, Inr v))"

text \<open>The body of the \<open>try\<close> block of \<open>request\<close>, after \<open>fetch\<close> has resolved.\<close>

definition handle_response :: "response \<Rightarrow> api_state \<Rightarrow> api_state \<times> (thrown + json)" where
  "handle_response r s =
     (if \<not> ok r then
        (if status r = 401 then (removeToken s, Inl (Error ''Authentication required''))
         else if status r = 429 then (s, Inl (Error ''AI_SERVICE_QUOTA_EXCEEDED''))
         else try_catch
                (case json_body r of
                   Inl e \<Rightarrow> (s, Inl e)
                 | Inr errorData \<Rightarrow>
                     (case member errorData ''error'' of
                        Inl e \<Rightarrow> (s, Inl e)
                      | Inr m \<Rightarrow>
                          (s, Inl (Error (if truthy m then to_message m
                                          else ''HTTP '' @ show_nat (status r))))))
                (\<lambda>s' e. (s', Inl (Error (''HTTP '' @ show_nat (status r) @ '': '' @ statusText r)))))
      else
        (case contentType r of
           None \<Rightarrow> (s, Inr (JObj []))
         | Some ct \<Rightarrow>
             (if ct \<noteq> [] \<and> sublist ''application/json'' ct then (s, json_body r)
              else (s, Inr (JObj [])))))"

definition request :: "network \<Rightarrow> string \<Rightarrow> api_state \<Rightarrow> api_state \<times> (thrown + json)" where
  "request net endpoint s =
     (let url = baseURL s @ endpoint;
          (delay, outcome) = net url;
          s1 = s\<lparr>requests := requests s @ [url], clock := clock s + delay\<rparr>
      in try_catch
           (case outcome of
              Rejects e \<Rightarrow> (s1, Inl e)
            | Responds r \<Rightarrow> handle_response r s1)
           (\<lambda>s' e. case e of
                      Error m \<Rightarrow> (s', Inl (Error m))
                    | NonError \<Rightarrow> (s', Inl (Error ''Network error''))))"

subsection \<open>The word endpoints\<close>

text \<open>The endpoints \<open>`/words/meanings/${encodeURIComponent(word)}`\<close> and
  \<open>`/words/enhanced/${encodeURIComponent(word)}`\<close>.\<close>

definition meanings_endpoint :: "js_builtins \<Rightarrow> string \<Rightarrow> string" where
  "meanings_endpoint B w = ''/words/meanings/'' @ encodeURIComponent B w"

definition enhanced_endpoint :: "js_builtins \<Rightarrow> string \<Rightarrow> string" where
  "enhanced_endpoint B w = ''/words/enhanced/'' @ encodeURIComponent B w"

definition getWordMeanings :: "js_builtins \<Rightarrow> network \<Rightarrow> string \<Rightarrow> api_state \<Rightarrow> api_state \<times> (thrown + json)" where
  "getWordMeanings B net w s = request net (meanings_endpoint B w) s"

definition cacheKey :: "js_builtins \<Rightarrow> string \<Rightarrow> string" where
  "cacheKey B w = ''enhanced_'' @ toLowerCase B w"

text \<open>
  The test \<open>cached && Date.now() - cached.timestamp < CACHE_DURATION\<close>: the payload of
  an entry that is still fresh.
\<close>

definition fresh_cached :: "api_state \<Rightarrow> string \<Rightarrow> json option" where
  "fresh_cached s key =
     (case wordCache s key of
        Some (data, timestamp) \<Rightarrow>
          (if clock s - timestamp < CACHE_DURATION then Some data else None)
      | None \<Rightarrow> None)"

definition getEnhancedWordInfo :: "js_builtins \<Rightarrow> network \<Rightarrow> string \<Rightarrow> api_state \<Rightarrow> api_state \<times> (thrown + json)" where
  "getEnhancedWordInfo B net w s =
     (let key = cacheKey B w;
          cached = wordCache s key
      in case fresh_cached s key of
           Some data \<Rightarrow> (s, Inr data)
         | None \<Rightarrow>
             try_catch
               (case request net (enhanced_endpoint B w) s of
                  (s1, Inl e) \<Rightarrow> (s1, Inl e)
                | (s1, Inr data) \<Rightarrow>
                    (s1\<lparr>wordCache := (wordCache s1)(key \<mapsto> (data, clock s1))\<rparr>, Inr data))
               (\<lambda>s' e. case cached of
                          Some (data, timestamp) \<Rightarrow>
                            (if e = Error ''AI_SERVICE_QUOTA_EXCEEDED'' then (s', Inr data)
                             else (s', Inl e))
                        | None \<Rightarrow> (s', Inl e)))"

text \<open>
  The cookies a browser keeps: a name is not empty and holds neither \<open>;\<close> nor \<open>=\<close>,
  a value holds no \<open>;\<close>.
\<close>

definition wf_jar :: "(string \<times> string) list \<Rightarrow> bool" where
  "wf_jar jar =
     list_all (\<lambda>(n, v). n \<noteq> [] \<and> CHR '';'' \<notin> set n \<and> CHR ''='' \<notin> set n \<and> CHR '';'' \<notin> set v) jar"

section \<open>components/WordInput.tsx: the word-input screen\<close>

text \<open>
  The state of the component, with what it reaches outside itself: the browser's
  \<open>localStorage\<close>, the number of times the \<open>onLoginRequired\<close> callback was called,
  and the state of the API client. \<open>wordData\<close> is \<open>JNull\<close> for \<open>null\<close>.
\<close>

record word_input =
  word_wi :: string
  loading_wi :: bool
  error :: string
  wordData :: json
  selectedMeaning :: string
  customMeaning :: string
  useCustomMeaning :: bool
  guestApiCount :: number
  localStorage :: "string \<rightharpoonup> string"
  loginRequired :: nat
  api :: api_state

definition GUEST_API_LIMIT :: int where
  "GUEST_API_LIMIT = 3"

definition GUEST_API_COUNT_KEY :: string where
  "GUEST_API_COUNT_KEY = ''guest_api_count''"




definition incrementGuestApiCount :: "js_numbers \<Rightarrow> word_input \<Rightarrow> word_input" where
  "incrementGuestApiCount N s =
     (let newCount = js_plus (guestApiCount s) 1
      in s\<lparr>guestApiCount := newCount,
           localStorage := (localStorage s)(GUEST_API_COUNT_KEY \<mapsto> numberToString N newCount)\<rparr>)"

definition not_found :: string where
  "not_found = ''Word not found. Please try another word.''"

text \<open>
  The \<open>catch\<close> branch of \<open>handleSubmit\<close> for the quota signal: the plain-meanings
  lookup, whose own failure (a rejection, or a \<open>TypeError\<close> on reading \<open>basicData\<close>)
  ends in the error text.
\<close>

definition quota_fallback :: "js_builtins \<Rightarrow> js_numbers \<Rightarrow> bool \<Rightarrow> network \<Rightarrow> string \<Rightarrow> word_input \<Rightarrow> word_input" where
  "quota_fallback B N isAuth net w s =
     (case getWordMeanings B net w (api s) of
        (a2, Inl e) \<Rightarrow> s\<lparr>api := a2, error := not_found\<rparr>
      | (a2, Inr basicData) \<Rightarrow>
          (case member basicData ''word'' of
             Inl e \<Rightarrow> s\<lparr>api := a2, error := not_found\<rparr>
           | Inr wd \<Rightarrow>
               (case member basicData ''meanings'' of
                  Inl e \<Rightarrow> s\<lparr>api := a2, error := not_found\<rparr>
                | Inr ms \<Rightarrow>
                    (let s2 = s\<lparr>api := a2,
                                 wordData := JObj [(''word'', wd), (''meanings'', ms),
                                                   (''phonetic'', JStr [])]\<rparr>
                     in if \<not> isAuth then incrementGuestApiCount N s2 else s2))))"

definition handleSubmit :: "js_builtins \<Rightarrow> js_numbers \<Rightarrow> bool \<Rightarrow> network \<Rightarrow> word_input \<Rightarrow> word_input" where
  "handleSubmit B N isAuth net s =
     (if trim B (word_wi s) = [] then s\<lparr>error := ''Please enter a word''\<rparr>
      else if \<not> isAuth \<and> js_ge (guestApiCount s) GUEST_API_LIMIT
      then s\<lparr>loginRequired := loginRequired s + 1\<rparr>
      else
        (let s0 = s\<lparr>loading_wi := True, error := [], wordData := JNull,
                     selectedMeaning := [], customMeaning := [], useCustomMeaning := False\<rparr>;
             w = trim B (word_wi s)
         in (case getEnhancedWordInfo B net w (api s0) of
               (a1, Inr data) \<Rightarrow>
                 (let s1 = s0\<lparr>api := a1, wordData := data\<rparr>
                  in if \<not> isAuth then incrementGuestApiCount N s1 else s1)
             | (a1, Inl err) \<Rightarrow>
                 (let errorMessage = (case err of Error m \<Rightarrow> m | NonError \<Rightarrow> ''Unknown error'')
                  in if errorMessage = ''AI_SERVICE_QUOTA_EXCEEDED''
                     then quota_fallback B N isAuth net w (s0\<lparr>api := a1\<rparr>)
                     else s0\<lparr>api := a1, error := not_found\<rparr>))
            \<lparr>loading_wi := False\<rparr>))"

section \<open>components/ReviewSession.tsx: the review session\<close>

record learning_card =
  word :: string
  meaning :: string
  example :: string
  imageUrl :: string

text \<open>
  A collection card; of its fields beyond the learning card's, the session reads the
  two identifiers.
\<close>

record collection_card = learning_card +
  collectionId :: string
  id_card :: string

text \<open>
  The state of the component and what it does to the outside: the toasts shown
  (message and variant), the number of calls of \<open>onComplete\<close> and of \<open>onClose\<close>, and
  the arguments of each \<open>recordCardReview\<close> call.
\<close>

record review_session =
  cards :: "collection_card list"
  currentIndex :: nat
  showAnswer :: bool
  loading_rs :: bool
  reviewing :: bool
  toasts :: "(string \<times> string) list"
  completed :: nat
  closed :: nat
  recorded :: "(string \<times> string \<times> nat) list"

definition showToast :: "string \<Rightarrow> string \<Rightarrow> review_session \<Rightarrow> review_session" where
  "showToast message variant s = s\<lparr>toasts := toasts s @ [(message, variant)]\<rparr>"

definition onComplete :: "review_session \<Rightarrow> review_session" where
  "onComplete s = s\<lparr>completed := completed s + 1\<rparr>"

definition onClose :: "review_session \<Rightarrow> review_session" where
  "onClose s = s\<lparr>closed := closed s + 1\<rparr>"

text \<open>
  \<open>loadDueCards\<close>, given what \<open>getCardsForReview\<close> settles with (the \<open>cards\<close> of the
  response, or what it rejects with).
\<close>

definition loadDueCards :: "thrown + collection_card list \<Rightarrow> review_session \<Rightarrow> review_session" where
  "loadDueCards result s =
     (let s1 = s\<lparr>loading_rs := True\<rparr>
      in (case result of
            Inr response_cards \<Rightarrow>
              (let s2 = s1\<lparr>cards := response_cards\<rparr>
               in if length response_cards = 0
                  then onComplete (showToast ''No cards due for review!'' ''success'' s2)
                  else s2)
          | Inl e \<Rightarrow> onClose (showToast ''Failed to load review cards'' ''error'' s1))
         \<lparr>loading_rs := False\<rparr>)"

text \<open>
  \<open>handleRating\<close>, given what \<open>recordCardReview\<close> settles with. The comparison with
  \<open>cards.length - 1\<close> is made on integers.
\<close>

definition handleRating :: "thrown + unit \<Rightarrow> nat \<Rightarrow> review_session \<Rightarrow> review_session" where
  "handleRating result rating s =
     (if reviewing s \<or> currentIndex s \<ge> length (cards s) then s
      else
        (let currentCard = cards s ! currentIndex s;
             s1 = s\<lparr>reviewing := True,
                     recorded := recorded s @ [(collectionId currentCard, id_card currentCard, rating)]\<rparr>
         in (case result of
               Inr u \<Rightarrow>
                 (if int (currentIndex s) < int (length (cards s)) - 1
                  then s1\<lparr>currentIndex := currentIndex s + 1, showAnswer := False\<rparr>
                  else onComplete
                         (showToast (''Review session complete! '' @ show_nat (length (cards s)) @
                                     '' cards reviewed'') ''success'' s1))
             | Inl e \<Rightarrow> showToast ''Failed to record review'' ''error'' s1)
            \<lparr>reviewing := False\<rparr>))"

text \<open>
  What the component renders: the loading card, nothing, or the flashcard screen with
  the current card, its position, the number of cards and whether the answer shows.
  Reading a field of \<open>cards[currentIndex]\<close> beyond the end of the list throws.
\<close>

datatype rendered =
    LoadingScreen
  | Nothing
  | Flashcard collection_card nat nat bool
  | RenderError

definition render :: "review_session \<Rightarrow> rendered" where
  "render s =
     (if loading_rs s then LoadingScreen
      else if length (cards s) = 0 then Nothing
      else if currentIndex s < length (cards s)
      then Flashcard (cards s ! currentIndex s) (currentIndex s + 1) (length (cards s))
             (showAnswer s)
      else RenderError)"

section \<open>The root controller App\<close>

datatype view = Learn | Collections | Learning

text \<open>
  The state of the controller that the learn flow and the navigation use, the toasts
  shown, the arguments of each \<open>generateLearningCard\<close> call, and the session history
  of the browser: the entries behind the current one (nearest first),
  \<open>window.location.pathname\<close>, and the entries ahead.
\<close>

record app =
  view :: view
  step :: nat
  word_app :: string
  meanings :: json
  learningCard :: "learning_card option"
  loading_app :: bool
  isAuthenticated_app :: bool
  user :: json
  toasts_app :: "(string \<times> string) list"
  generated :: "(string \<times> string) list"
  back_entries :: "string list"
  pathname :: string
  forward_entries :: "string list"

text \<open>What the backend answers to the three calls the flow makes.\<close>

record app_api =
  generateLearningCard :: "string \<Rightarrow> string \<Rightarrow> thrown + learning_card"
  learnWord :: "string \<Rightarrow> string \<Rightarrow> thrown + unit"
  getProfile :: "thrown + json"

definition getInitialView :: "string \<Rightarrow> view" where
  "getInitialView path =
     (if path = ''/collections'' then Collections
      else if path = ''/learning'' then Learning
      else Learn)"

definition handlePopState :: "app \<Rightarrow> app" where
  "handlePopState s =
     (if pathname s = ''/collections'' then s\<lparr>view := Collections\<rparr>
      else if pathname s = ''/learning'' then s\<lparr>view := Learning\<rparr>
      else s\<lparr>view := Learn\<rparr>)"

definition nextPath :: "view \<Rightarrow> string" where
  "nextPath nextView =
     (if nextView = Collections then ''/collections''
      else if nextView = Learning then ''/learning''
      else ''/'')"

text \<open>\<open>window.history.pushState(null, "", nextPath)\<close> drops the entries ahead.\<close>

definition pushState :: "view \<Rightarrow> app \<Rightarrow> app" where
  "pushState nextView s =
     s\<lparr>back_entries := pathname s # back_entries s,
       pathname := nextPath nextView,
       forward_entries := []\<rparr>"

definition handleSwitchView :: "view \<Rightarrow> app \<Rightarrow> app" where
  "handleSwitchView nextView s = pushState nextView (s\<lparr>view := nextView\<rparr>)"

text \<open>
  The browser's Back: with an entry behind, it becomes the current one and the
  \<open>popstate\<close> listener runs.
\<close>

definition browser_back :: "app \<Rightarrow> app" where
  "browser_back s =
     (case back_entries s of
        [] \<Rightarrow> s
      | p # ps \<Rightarrow>
          handlePopState
            (s\<lparr>back_entries := ps, pathname := p,
               forward_entries := pathname s # forward_entries s\<rparr>))"

definition handleWordLearned :: "app_api \<Rightarrow> string \<Rightarrow> string \<Rightarrow> app \<Rightarrow> app" where
  "handleWordLearned env learnedWord learnedMeaning s =
     (if isAuthenticated_app s \<and> truthy (user s)
      then (case learnWord env learnedWord learnedMeaning of
              Inl e \<Rightarrow> s
            | Inr u \<Rightarrow> (case getProfile env of Inl e \<Rightarrow> s | Inr userData \<Rightarrow> s\<lparr>user := userData\<rparr>))
      else s)"

text \<open>
  \<open>handleMeaningSelect\<close> up to its \<open>await\<close> (the state while the request is in flight),
  and from there on.
\<close>

definition targetWord :: "string option \<Rightarrow> app \<Rightarrow> string" where
  "targetWord overrideWord s = (case overrideWord of Some w \<Rightarrow> w | None \<Rightarrow> word_app s)"

definition handleMeaningSelect_call :: "string \<Rightarrow> string option \<Rightarrow> app \<Rightarrow> app" where
  "handleMeaningSelect_call m overrideWord s =
     s\<lparr>loading_app := True, generated := generated s @ [(targetWord overrideWord s, m)]\<rparr>"

definition handleMeaningSelect_settle :: "app_api \<Rightarrow> string \<Rightarrow> string \<Rightarrow> app \<Rightarrow> app" where
  "handleMeaningSelect_settle env tw m s =
     (case generateLearningCard env tw m of
        Inr data \<Rightarrow> handleWordLearned env tw m (s\<lparr>learningCard := Some data, step := 3\<rparr>)
      | Inl e \<Rightarrow>
          s\<lparr>toasts_app := toasts_app s @
                [(''Failed to generate learning card. Please try again.'', ''error'')]\<rparr>)
     \<lparr>loading_app := False\<rparr>"

definition handleMeaningSelect :: "app_api \<Rightarrow> string \<Rightarrow> string option \<Rightarrow> app \<Rightarrow> app" where
  "handleMeaningSelect env m overrideWord s =
     handleMeaningSelect_settle env (targetWord overrideWord s) m
       (handleMeaningSelect_call m overrideWord s)"

text \<open>\<open>a || b || ""\<close> on optional strings.\<close>

definition or_else :: "string option \<Rightarrow> string option \<Rightarrow> string" where
  "or_else a b =
     (case a of
        Some x \<Rightarrow> (if x \<noteq> [] then x else (case b of Some y \<Rightarrow> y | None \<Rightarrow> []))
      | None \<Rightarrow> (case b of Some y \<Rightarrow> y | None \<Rightarrow> []))"

definition handleWordSubmit :: "app_api \<Rightarrow> string \<Rightarrow> json \<Rightarrow> string option \<Rightarrow> string option \<Rightarrow> app \<Rightarrow> app" where
  "handleWordSubmit env searchWord fetchedMeanings selected custom s =
     (let s1 = s\<lparr>word_app := searchWord, meanings := fetchedMeanings\<rparr>
      in if or_else selected custom \<noteq> []
         then handleMeaningSelect env (or_else selected custom) (Some searchWord) s1
         else s1\<lparr>step := 2\<rparr>)"

section \<open>Concrete inputs\<close>

text \<open>
  A client state with three cookies, among them the token, and a network that answers
  every URL after 120 ms with the given status, status text and JSON body.
\<close>

definition demo_api :: api_state where
  "demo_api =
     \<lparr> cookies = [(''theme'', ''dark''), (''auth_token'', ''abc.def''), (''lang'', ''en'')],
       wordCache = Map.empty, clock = 1000, requests = [], baseURL = ''/api'' \<rparr>"

definition answer :: "nat \<Rightarrow> string \<Rightarrow> json \<Rightarrow> network" where
  "answer st txt v =
     (\<lambda>url. (120, Responds \<lparr> status = st, statusText = txt,
                             contentType = Some ''application/json'',
                             json_body = Inr v \<rparr>))"

definition demo_payload :: json where
  "demo_payload =
     JObj [(''word'', JStr ''hello''), (''phonetic'', JStr ''/hello/''),
           (''meanings'', JArr [JObj [(''partOfSpeech'', JStr ''noun''),
                                      (''definition'', JStr ''a greeting'')]])]"

text \<open>A client whose cache holds an entry for \<open>hello\<close> that is 2000 seconds old.\<close>

definition stale_api :: api_state where
  "stale_api =
     \<lparr> cookies = [], wordCache = [''enhanced_hello'' \<mapsto> (demo_payload, 0)],
       clock = 2000000, requests = [], baseURL = ''/api'' \<rparr>"

text \<open>
  The word-input screen of a guest with the given text in the box and the given guest
  counter; a due card; a review session on the given cards at the given index; the
  controller at step 1 of the learn view; a backend whose card generation fails and one
  whose card generation works.
\<close>

definition demo_input :: "string \<Rightarrow> int \<Rightarrow> word_input" where
  "demo_input w n =
     \<lparr> word_wi = w, loading_wi = False, error = [], wordData = JNull,
       selectedMeaning = [], customMeaning = [], useCustomMeaning = False,
       guestApiCount = Finite n, localStorage = Map.empty, loginRequired = 0, api = demo_api \<rparr>"


text \<open>
  A network that answers the enhanced endpoint with 429 and every other URL with the
  given body.
\<close>

definition quota_network :: "json \<Rightarrow> network" where
  "quota_network v =
     (\<lambda>url. if prefix ''/api/words/enhanced/'' url
            then (120, Responds \<lparr> status = 429, statusText = ''Too Many Requests'',
                                   contentType = Some ''application/json'',
                                   json_body = Inr JNull \<rparr>)
            else (80, Responds \<lparr> status = 200, statusText = ''OK'',
                                  contentType = Some ''application/json'',
                                  json_body = Inr v \<rparr>))"

definition demo_card :: "string \<Rightarrow> collection_card" where
  "demo_card i =
     \<lparr> word = ''hello'', meaning = ''a greeting'', example = ''Hello, world.'',
       imageUrl = ''https://img.example/hello.png'', collectionId = ''c1'', id_card = i \<rparr>"

definition demo_session :: "collection_card list \<Rightarrow> nat \<Rightarrow> review_session" where
  "demo_session cs i =
     \<lparr> cards = cs, currentIndex = i, showAnswer = True, loading_rs = False, reviewing = False,
       toasts = [], completed = 0, closed = 0, recorded = [] \<rparr>"

definition demo_app :: app where
  "demo_app =
     \<lparr> view = Learn, step = 1, word_app = [], meanings = JArr [], learningCard = None,
       loading_app = False, isAuthenticated_app = True, user = JObj [(''id'', JStr ''u1'')],
       toasts_app = [], generated = [], back_entries = [], pathname = ''/'',
       forward_entries = [] \<rparr>"

definition failing_backend :: app_api where
  "failing_backend =
     \<lparr> generateLearningCard = (\<lambda>w m. Inl (Error ''HTTP 500: Internal Server Error'')),
       learnWord = (\<lambda>w m. Inr ()),
       getProfile = Inr (JObj [(''id'', JStr ''u1'')]) \<rparr>"

definition working_backend :: app_api where
  "working_backend =
     \<lparr> generateLearningCard =
         (\<lambda>w m. Inr \<lparr> word = w, meaning = m, example = ''Hello, world.'',
                       imageUrl = ''https://img.example/hello.png'' \<rparr>),
       learnWord = (\<lambda>w m. Inr ()),
       getProfile = Inr (JObj [(''id'', JStr ''u1'')]) \<rparr>"

section \<open>Properties of the API client\<close>

subsection \<open>Error mapping of request\<close>

lemma handle_response_other:
  assumes "\<not> ok r" "status r \<noteq> 401" "status r \<noteq> 429"
  shows "handle_response r s =
           (s, Inl (Error (''HTTP '' @ show_nat (status r) @ '': '' @ statusText r)))"
  using assms by (simp add: handle_response_def try_catch_def split: sum.splits)

text \<open>
  Claim C5. When \<open>fetch\<close> resolves with a response whose status is outside 200..299
  and is neither 401 nor 429, \<open>request\<close> rejects with an \<open>Error\<close> whose message is
  exactly \<open>HTTP {status}: {statusText}\<close>, whatever the body is: the error built from
  the \<open>error\<close> member of a parsed body is thrown inside the inner \<open>try\<close> and replaced
  by its \<open>catch\<close>.
\<close>

theorem request_other_status_message:
  assumes "net (baseURL s @ ep) = (d, Responds r)"
    and "\<not> ok r" and "status r \<noteq> 401" and "status r \<noteq> 429"
  shows "snd (request net ep s) =
           Inl (Error (''HTTP '' @ show_nat (status r) @ '': '' @ statusText r))"
  using assms by (simp add: request_def try_catch_def Let_def handle_response_other)

theorem request_other_status_message_witness:
  "snd (request (answer 404 ''Not Found'' (JObj [(''error'', JStr ''no such word'')]))
          ''/words/meanings/zzz'' demo_api) = Inl (Error ''HTTP 404: Not Found'')"
  using request_other_status_message
          [of "answer 404 ''Not Found'' (JObj [(''error'', JStr ''no such word'')])"
              demo_api "''/words/meanings/zzz''" 120]
  by (simp add: answer_def ok_def show_nat.simps)

subsection \<open>The token after a 401\<close>

lemma split_no_occurrence:
  "\<not> sublist sep s \<Longrightarrow> split sep acc s = [rev acc @ s]"
proof (induction sep acc s rule: split.induct)
  case (1 sep acc)
  then show ?case by simp
next
  case (2 sep acc c cs)
  from "2.prems" have np: "\<not> prefix sep (c # cs)" and ns: "\<not> sublist sep cs"
    by (simp_all add: sublist_Cons_right)
  with "2.IH"(2) show ?case by simp
qed

lemma sublist_skip:
  "x \<notin> set u \<Longrightarrow> sublist (x # p) (u @ t) \<Longrightarrow> sublist (x # p) t"
  by (induction u) (auto simp: sublist_Cons_right)

lemma prefix_delim_eq:
  "x \<notin> set a \<Longrightarrow> x \<notin> set b \<Longrightarrow> prefix (a @ [x]) (b @ x # c) \<Longrightarrow> a = b"
proof (induction a arbitrary: b)
  case Nil
  then show ?case by (cases b) auto
next
  case (Cons y a)
  then show ?case by (cases b) auto
qed

text \<open>
  One more cookie in front of a text without \<open>; name=\<close> gives a text without it,
  when the cookie has another name.
\<close>

lemma no_cookie_item:
  assumes t: "\<not> sublist (''; '' @ name @ ''='') t"
    and n: "n \<noteq> name" "CHR '';'' \<notin> set n" "CHR ''='' \<notin> set n"
    and v: "CHR '';'' \<notin> set v"
    and nm: "CHR ''='' \<notin> set name"
  shows "\<not> sublist (''; '' @ name @ ''='') (''; '' @ (n @ ''='' @ v) @ t)"
proof
  assume "sublist (''; '' @ name @ ''='') (''; '' @ (n @ ''='' @ v) @ t)"
  then consider (p) "prefix (''; '' @ name @ ''='') (''; '' @ (n @ ''='' @ v) @ t)"
    | (s) "sublist (''; '' @ name @ ''='') ('' '' @ (n @ ''='' @ v) @ t)"
    by (auto simp: sublist_Cons_right)
  then show False
  proof cases
    case p
    then have "prefix (name @ ''='') (n @ CHR ''='' # (v @ t))" by simp
    with n nm have "name = n" using prefix_delim_eq by metis
    with n show False by simp
  next
    case s
    have "CHR '';'' \<notin> set ('' '' @ n @ ''='' @ v)" using n v by simp
    with s have "sublist (''; '' @ name @ ''='') t"
      using sublist_skip [of "CHR '';''" "'' '' @ n @ ''='' @ v" "'' '' @ name @ ''=''" t] by simp
    with t show False by simp
  qed
qed

lemma no_cookie_doc:
  assumes "wf_jar jar" "name \<notin> fst ` set jar" "CHR ''='' \<notin> set name"
  shows "\<not> sublist (''; '' @ name @ ''='')
            (''; '' @ join_cookies (map (\<lambda>(n, v). n @ ''='' @ v) jar))"
  using assms(1,2)
proof (induction jar rule: induct_list012)
  case 1
  have "\<not> length (''; '' @ name @ ''='') \<le> length ''; ''" by simp
  then show ?case using sublist_length_le by fastforce
next
  case (2 x)
  obtain n v where x: "x = (n, v)" by (cases x)
  have "\<not> sublist (''; '' @ name @ ''='') (''; '' @ (n @ ''='' @ v) @ [])"
    using 2 x assms(3) by (intro no_cookie_item) (auto simp: wf_jar_def)
  then show ?case by (simp add: x)
next
  case (3 x y zs)
  obtain n v where x: "x = (n, v)" by (cases x)
  from 3 have ih: "\<not> sublist (''; '' @ name @ ''='')
            (''; '' @ join_cookies (map (\<lambda>(n, v). n @ ''='' @ v) (y # zs)))"
    by (simp add: wf_jar_def)
  have "\<not> sublist (''; '' @ name @ ''='') (''; '' @ (n @ ''='' @ v) @
            (''; '' @ join_cookies (map (\<lambda>(n, v). n @ ''='' @ v) (y # zs))))"
    using 3(3,4) x assms(3) ih by (intro no_cookie_item) (auto simp: wf_jar_def)
  then show ?case by (simp add: x)
qed

lemma getCookie_absent:
  assumes "wf_jar (cookies s)" "name \<notin> fst ` set (cookies s)" "CHR ''='' \<notin> set name"
  shows "getCookie s name = None"
proof -
  have "split (''; '' @ name @ ''='') [] (''; '' @ document_cookie s) = [''; '' @ document_cookie s]"
    using split_no_occurrence [OF no_cookie_doc [OF assms], of "[]"]
    by (simp add: document_cookie_def)
  then show ?thesis by (simp add: getCookie_def js_split_def)
qed

lemma wf_jar_filter: "wf_jar jar \<Longrightarrow> wf_jar (filter P jar)"
  by (induction jar) (auto simp: wf_jar_def)

lemma isAuthenticated_removeToken:
  assumes "wf_jar (cookies s)"
  shows "\<not> isAuthenticated (removeToken s)"
proof -
  have "getCookie (removeToken s) COOKIE_NAME = None"
    using assms
    by (intro getCookie_absent)
       (auto simp: removeToken_def deleteCookie_def wf_jar_filter COOKIE_NAME_def)
  then show ?thesis by (simp add: isAuthenticated_def getToken_def)
qed

text \<open>
  Claim C2. When \<open>fetch\<close> resolves with status 401, \<open>request\<close> rejects with the error
  \<open>Authentication required\<close>, and the state it leaves behind has no \<open>auth_token\<close>
  cookie: \<open>isAuthenticated()\<close> on it is false. The cookies are those a browser keeps
  (\<open>wf_jar\<close>).
\<close>

theorem request_401_clears_token:
  assumes "wf_jar (cookies s)"
    and "net (baseURL s @ ep) = (d, Responds r)"
    and "status r = 401"
  shows "snd (request net ep s) = Inl (Error ''Authentication required'') \<and>
         COOKIE_NAME \<notin> fst ` set (cookies (fst (request net ep s))) \<and>
         \<not> isAuthenticated (fst (request net ep s))"
proof -
  let ?s1 = "s\<lparr>requests := requests s @ [baseURL s @ ep], clock := clock s + d\<rparr>"
  have req: "request net ep s = (removeToken ?s1, Inl (Error ''Authentication required''))"
    using assms(2,3)
    by (simp add: request_def handle_response_def ok_def try_catch_def)
  have absent: "COOKIE_NAME \<notin> fst ` set (cookies (removeToken ?s1))"
    by (auto simp: removeToken_def deleteCookie_def)
  have "wf_jar (cookies ?s1)" using assms(1) by simp
  then have "\<not> isAuthenticated (removeToken ?s1)"
    by (rule isAuthenticated_removeToken)
  with absent show ?thesis by (simp add: req)
qed

theorem request_401_clears_token_witness:
  "isAuthenticated demo_api \<and>
   snd (request (answer 401 ''Unauthorized'' JNull) ''/users/profile'' demo_api)
     = Inl (Error ''Authentication required'') \<and>
   \<not> isAuthenticated
       (fst (request (answer 401 ''Unauthorized'' JNull) ''/users/profile'' demo_api))"
proof -
  have wf: "wf_jar (cookies demo_api)" by (simp add: demo_api_def wf_jar_def)
  have n: "answer 401 ''Unauthorized'' JNull (baseURL demo_api @ ''/users/profile'')
           = (120, Responds \<lparr> status = 401, statusText = ''Unauthorized'',
                             contentType = Some ''application/json'',
                             json_body = Inr JNull \<rparr>)"
    by (simp add: answer_def)
  have a: "isAuthenticated demo_api"
    by (simp add: isAuthenticated_def getToken_def getCookie_def js_split_def demo_api_def
        document_cookie_def COOKIE_NAME_def)
  show ?thesis
    using request_401_clears_token
            [of demo_api "answer 401 ''Unauthorized'' JNull" "''/users/profile''" 120, OF wf n] a
    by simp
qed

subsection \<open>The word cache\<close>

lemma handle_response_frame:
  "handle_response r s = (s', x) \<Longrightarrow>
     requests s' = requests s \<and> clock s' = clock s \<and> wordCache s' = wordCache s \<and>
     baseURL s' = baseURL s"
  by (auto simp: handle_response_def try_catch_def removeToken_def deleteCookie_def
           split: if_splits sum.splits option.splits)

text \<open>\<open>request\<close> logs its URL, lets the time of the answer pass and leaves the cache alone.\<close>

lemma request_frame:
  assumes "request net ep s = (s', x)"
  shows "requests s' = requests s @ [baseURL s @ ep] \<and> wordCache s' = wordCache s \<and>
         clock s' = clock s + fst (net (baseURL s @ ep)) \<and> baseURL s' = baseURL s"
proof -
  obtain d out where n: "net (baseURL s @ ep) = (d, out)" by (cases "net (baseURL s @ ep)")
  let ?s1 = "s\<lparr>requests := requests s @ [baseURL s @ ep], clock := clock s + d\<rparr>"
  show ?thesis
  proof (cases out)
    case (Rejects e)
    with n assms show ?thesis
      by (auto simp: request_def try_catch_def Let_def split: thrown.splits)
  next
    case (Responds r)
    obtain s2 y where h: "handle_response r ?s1 = (s2, y)" by (cases "handle_response r ?s1")
    from handle_response_frame [OF h] have "requests s2 = requests ?s1 \<and> clock s2 = clock ?s1 \<and>
       wordCache s2 = wordCache ?s1 \<and> baseURL s2 = baseURL ?s1" .
    moreover from n Responds h assms have "s' = s2"
      by (auto simp: request_def try_catch_def Let_def split: thrown.splits sum.splits)
    ultimately show ?thesis using n by simp
  qed
qed

lemma request_429:
  "net (baseURL s @ ep) = (d, Responds r) \<Longrightarrow> status r = 429 \<Longrightarrow>
     request net ep s =
       (s\<lparr>requests := requests s @ [baseURL s @ ep], clock := clock s + d\<rparr>,
        Inl (Error ''AI_SERVICE_QUOTA_EXCEEDED''))"
  by (simp add: request_def handle_response_def ok_def try_catch_def)

lemma getEnhancedWordInfo_hit:
  "fresh_cached s (cacheKey B w) = Some data \<Longrightarrow> getEnhancedWordInfo B net w s = (s, Inr data)"
  by (simp add: getEnhancedWordInfo_def)

lemma getEnhancedWordInfo_miss:
  assumes "fresh_cached s (cacheKey B w) = None"
  shows "getEnhancedWordInfo B net w s =
     (case request net (enhanced_endpoint B w) s of
        (s1, Inr data) \<Rightarrow>
          (s1\<lparr>wordCache := (wordCache s1)(cacheKey B w \<mapsto> (data, clock s1))\<rparr>, Inr data)
      | (s1, Inl e) \<Rightarrow>
          (case wordCache s (cacheKey B w) of
             Some (data, ts) \<Rightarrow>
               (if e = Error ''AI_SERVICE_QUOTA_EXCEEDED'' then (s1, Inr data) else (s1, Inl e))
           | None \<Rightarrow> (s1, Inl e)))"
  using assms
  by (simp add: getEnhancedWordInfo_def try_catch_def split: prod.splits sum.splits option.splits)


lemma CACHE_DURATION_minutes: "CACHE_DURATION = 30 * 60000"
  by (simp add: CACHE_DURATION_def)



text \<open>
  Claim C9. When the enhanced endpoint answers with status 429, \<open>getEnhancedWordInfo\<close>
  resolves with the payload of the cache entry of the lower-cased word whenever there
  is one, whatever its age, and rejects with the quota error when there is none.
  Whatever the network does, the call rejects with the quota error only when the
  cache has no entry for the word.
\<close>

theorem enhanced_lookup_quota_uses_any_entry:
  "(net (baseURL s @ enhanced_endpoint B w) = (d, Responds r) \<and> status r = 429 \<longrightarrow>
      (case wordCache s (cacheKey B w) of
         Some (data, ts) \<Rightarrow> snd (getEnhancedWordInfo B net w s) = Inr data
       | None \<Rightarrow> snd (getEnhancedWordInfo B net w s) = Inl (Error ''AI_SERVICE_QUOTA_EXCEEDED''))) \<and>
   (snd (getEnhancedWordInfo B net w s) = Inl (Error ''AI_SERVICE_QUOTA_EXCEEDED'') \<longrightarrow>
      wordCache s (cacheKey B w) = None)"
proof (intro conjI impI)
  assume a: "net (baseURL s @ enhanced_endpoint B w) = (d, Responds r) \<and> status r = 429"
  show "case wordCache s (cacheKey B w) of
         Some (data, ts) \<Rightarrow> snd (getEnhancedWordInfo B net w s) = Inr data
       | None \<Rightarrow> snd (getEnhancedWordInfo B net w s) = Inl (Error ''AI_SERVICE_QUOTA_EXCEEDED'')"
  proof (cases "fresh_cached s (cacheKey B w)")
    case None
    from a show ?thesis
      by (simp add: getEnhancedWordInfo_miss [OF None] request_429 split: option.splits)
  next
    case (Some data)
    then show ?thesis
      by (auto simp: getEnhancedWordInfo_hit fresh_cached_def split: option.splits if_splits)
  qed
next
  assume q: "snd (getEnhancedWordInfo B net w s) = Inl (Error ''AI_SERVICE_QUOTA_EXCEEDED'')"
  show "wordCache s (cacheKey B w) = None"
  proof (cases "fresh_cached s (cacheKey B w)")
    case None
    with q show ?thesis
      by (auto simp: getEnhancedWordInfo_miss split: prod.splits sum.splits option.splits if_splits)
  next
    case (Some data)
    with q show ?thesis by (simp add: getEnhancedWordInfo_hit)
  qed
qed

text \<open>
  The entry of \<open>stale_api\<close> is older than the window, the request is made and answered
  with 429, and the call resolves with the entry; with an empty cache it rejects.
\<close>

theorem enhanced_lookup_quota_uses_any_entry_witness:
  "fresh_cached stale_api (cacheKey js_ascii ''Hello'') = None \<and>
   snd (getEnhancedWordInfo js_ascii (answer 429 ''Too Many Requests'' JNull) ''Hello'' stale_api)
     = Inr demo_payload \<and>
   snd (getEnhancedWordInfo js_ascii (answer 429 ''Too Many Requests'' JNull) ''Hello'' demo_api)
     = Inl (Error ''AI_SERVICE_QUOTA_EXCEEDED'')"
proof -
  have k: "cacheKey js_ascii ''Hello'' = ''enhanced_hello''" by code_simp
  have stale: "fresh_cached stale_api ''enhanced_hello'' = None"
    by (simp add: fresh_cached_def stale_api_def CACHE_DURATION_def)
  show ?thesis
    using enhanced_lookup_quota_uses_any_entry
            [of "answer 429 ''Too Many Requests'' JNull" stale_api js_ascii "''Hello''" 120
                "\<lparr> status = 429, statusText = ''Too Many Requests'',
                   contentType = Some ''application/json'', json_body = Inr JNull \<rparr>"]
          enhanced_lookup_quota_uses_any_entry
            [of "answer 429 ''Too Many Requests'' JNull" demo_api js_ascii "''Hello''" 120
                "\<lparr> status = 429, statusText = ''Too Many Requests'',
                   contentType = Some ''application/json'', json_body = Inr JNull \<rparr>"]
          stale
    by (simp add: k answer_def stale_api_def demo_api_def)
qed

section \<open>Properties of the word-input screen\<close>

lemma getEnhancedWordInfo_rejects_requests:
  assumes "getEnhancedWordInfo B net w a = (a1, Inl e)"
  shows "requests a1 = requests a @ [baseURL a @ enhanced_endpoint B w] \<and> baseURL a1 = baseURL a"
proof (cases "fresh_cached a (cacheKey B w)")
  case None
  obtain s1 x where r: "request net (enhanced_endpoint B w) a = (s1, x)"
    by (cases "request net (enhanced_endpoint B w) a")
  from assms have "a1 = s1"
    by (auto simp: getEnhancedWordInfo_miss [OF None] r split: sum.splits option.splits if_splits)
  with request_frame [OF r] show ?thesis by simp
next
  case (Some data)
  with assms show ?thesis by (simp add: getEnhancedWordInfo_hit)
qed

lemma quota_fallback_requests:
  "requests (api (quota_fallback B N isAuth net w s)) =
     requests (api s) @ [baseURL (api s) @ meanings_endpoint B w]"
proof -
  obtain a2 x where r: "request net (meanings_endpoint B w) (api s) = (a2, x)"
    by (cases "request net (meanings_endpoint B w) (api s)")
  from request_frame [OF r] show ?thesis
    by (simp add: quota_fallback_def getWordMeanings_def r incrementGuestApiCount_def Let_def
             split: sum.splits)
qed

lemma quota_fallback_rejects:
  "isl (snd (getWordMeanings B net w (api s))) \<Longrightarrow>
     error (quota_fallback B N isAuth net w s) = not_found \<and>
     wordData (quota_fallback B N isAuth net w s) = wordData s \<and>
     guestApiCount (quota_fallback B N isAuth net w s) = guestApiCount s"
  by (auto simp: quota_fallback_def split: prod.splits sum.splits)

text \<open>A fallback that resolves with an object puts its word and meanings on the screen.\<close>

lemma quota_fallback_resolves:
  assumes "snd (getWordMeanings B net w (api s)) = Inr basicData"
    and "member basicData ''word'' = Inr wd" and "member basicData ''meanings'' = Inr ms"
  shows "wordData (quota_fallback B N isAuth net w s) =
           JObj [(''word'', wd), (''meanings'', ms), (''phonetic'', JStr [])] \<and>
         error (quota_fallback B N isAuth net w s) = error s \<and>
         api (quota_fallback B N isAuth net w s) = fst (getWordMeanings B net w (api s))"
  using assms
  by (auto simp: quota_fallback_def incrementGuestApiCount_def Let_def split: prod.splits)

text \<open>A fallback that resolves with \<open>null\<close> fails on reading it.\<close>

lemma quota_fallback_unreadable:
  assumes "snd (getWordMeanings B net w (api s)) = Inr basicData"
    and "isl (member basicData ''word'')"
  shows "error (quota_fallback B N isAuth net w s) = not_found \<and>
         wordData (quota_fallback B N isAuth net w s) = wordData s"
  using assms
  by (auto simp: quota_fallback_def split: prod.splits sum.splits)

lemma handleSubmit_quota:
  assumes "trim B (word_wi s) \<noteq> []" "isAuth \<or> \<not> js_ge (guestApiCount s) GUEST_API_LIMIT"
    and "getEnhancedWordInfo B net (trim B (word_wi s)) (api s)
           = (a1, Inl (Error ''AI_SERVICE_QUOTA_EXCEEDED''))"
  shows "handleSubmit B N isAuth net s =
     (quota_fallback B N isAuth net (trim B (word_wi s))
        (s\<lparr>loading_wi := True, error := [], wordData := JNull,
           selectedMeaning := [], customMeaning := [], useCustomMeaning := False, api := a1\<rparr>))
     \<lparr>loading_wi := False\<rparr>"
  using assms by (auto simp: handleSubmit_def Let_def)

text \<open>
  Claim C3. Take a submission that reaches the lookup (the word is not blank and the
  guest limit does not stop it) and whose enhanced lookup rejects with the error
  \<open>AI_SERVICE_QUOTA_EXCEEDED\<close>. Then the screen requests the plain-meanings endpoint
  for the same trimmed word right after the enhanced one. If that request resolves
  with an object, the screen shows its word and meanings with an empty phonetic text
  and no error. If it rejects, or resolves with a value whose members cannot be read,
  the screen ends with the error text \<open>Word not found. Please try another word.\<close>
  and no word data. In each case the loading flag ends off, and \<open>handleSubmit\<close>
  returns a state: nothing is thrown. The signal is what \<open>request\<close> rejects with on a
  response of status 429.
\<close>

theorem submit_quota_falls_back:
  assumes reach: "trim B (word_wi s) \<noteq> []" "isAuth \<or> \<not> js_ge (guestApiCount s) GUEST_API_LIMIT"
    and quota: "getEnhancedWordInfo B net (trim B (word_wi s)) (api s)
                  = (a1, Inl (Error ''AI_SERVICE_QUOTA_EXCEEDED''))"
  shows "requests (api (handleSubmit B N isAuth net s)) =
           requests (api s) @ [baseURL (api s) @ enhanced_endpoint B (trim B (word_wi s)),
                               baseURL (api s) @ meanings_endpoint B (trim B (word_wi s))] \<and>
         \<not> loading_wi (handleSubmit B N isAuth net s) \<and>
         (\<forall>basicData wd ms.
            snd (getWordMeanings B net (trim B (word_wi s)) a1) = Inr basicData \<and>
            member basicData ''word'' = Inr wd \<and> member basicData ''meanings'' = Inr ms \<longrightarrow>
              wordData (handleSubmit B N isAuth net s) =
                JObj [(''word'', wd), (''meanings'', ms), (''phonetic'', JStr [])] \<and>
              error (handleSubmit B N isAuth net s) = []) \<and>
         (isl (snd (getWordMeanings B net (trim B (word_wi s)) a1)) \<longrightarrow>
            error (handleSubmit B N isAuth net s) = not_found \<and>
            wordData (handleSubmit B N isAuth net s) = JNull) \<and>
         (\<forall>basicData.
            snd (getWordMeanings B net (trim B (word_wi s)) a1) = Inr basicData \<and>
            isl (member basicData ''word'') \<longrightarrow>
              error (handleSubmit B N isAuth net s) = not_found \<and>
              wordData (handleSubmit B N isAuth net s) = JNull) \<and>
         (\<forall>d r ep a. net (baseURL a @ ep) = (d, Responds r) \<and> status r = 429 \<longrightarrow>
            snd (request net ep a) = Inl (Error ''AI_SERVICE_QUOTA_EXCEEDED''))"
proof -
  let ?w = "trim B (word_wi s)"
  let ?s0 = "s\<lparr>loading_wi := True, error := [], wordData := JNull,
           selectedMeaning := [], customMeaning := [], useCustomMeaning := False, api := a1\<rparr>"
  note hs = handleSubmit_quota [OF reach quota]
  from getEnhancedWordInfo_rejects_requests [OF quota]
  have a1: "requests a1 = requests (api s) @ [baseURL (api s) @ enhanced_endpoint B ?w]"
    "baseURL a1 = baseURL (api s)" by simp_all
  have "requests (api (handleSubmit B N isAuth net s)) =
          requests a1 @ [baseURL a1 @ meanings_endpoint B ?w]"
    using quota_fallback_requests [of B N isAuth net ?w ?s0] by (simp add: hs)
  then have 1: "requests (api (handleSubmit B N isAuth net s)) =
           requests (api s) @ [baseURL (api s) @ enhanced_endpoint B ?w,
                               baseURL (api s) @ meanings_endpoint B ?w]"
    by (simp add: a1)
  have 2: "\<not> loading_wi (handleSubmit B N isAuth net s)" by (simp add: hs)
  have 3: "wordData (handleSubmit B N isAuth net s) =
                JObj [(''word'', wd), (''meanings'', ms), (''phonetic'', JStr [])] \<and>
           error (handleSubmit B N isAuth net s) = []"
    if "snd (getWordMeanings B net ?w a1) = Inr basicData \<and>
        member basicData ''word'' = Inr wd \<and> member basicData ''meanings'' = Inr ms"
    for basicData wd ms
    using quota_fallback_resolves [of B net ?w ?s0 basicData wd ms N isAuth] that
    by (simp add: hs)
  have 4: "error (handleSubmit B N isAuth net s) = not_found \<and>
           wordData (handleSubmit B N isAuth net s) = JNull"
    if "isl (snd (getWordMeanings B net ?w a1))"
    using quota_fallback_rejects [of B net ?w ?s0 N isAuth] that by (simp add: hs)
  have 5: "error (handleSubmit B N isAuth net s) = not_found \<and>
           wordData (handleSubmit B N isAuth net s) = JNull"
    if "snd (getWordMeanings B net ?w a1) = Inr basicData \<and> isl (member basicData ''word'')"
    for basicData
    using quota_fallback_unreadable [of B net ?w ?s0 basicData N isAuth] that by (simp add: hs)
  have 6: "snd (request net ep a) = Inl (Error ''AI_SERVICE_QUOTA_EXCEEDED'')"
    if "net (baseURL a @ ep) = (d, Responds r) \<and> status r = 429" for d r ep a
    using that by (simp add: request_429)
  from 1 2 3 4 5 6 show ?thesis by blast
qed

text \<open>
  A guest searches \<open>Hello\<close>. With every endpoint answering 429 the screen ends on the
  error text; with only the enhanced endpoint answering 429 it shows the word and the
  meanings of the plain answer.
\<close>

theorem submit_quota_falls_back_witness:
  "requests (api (handleSubmit js_ascii js_decimal False (answer 429 ''Too Many Requests'' JNull)
                    (demo_input '' Hello '' 0)))
     = [''/api/words/enhanced/Hello'', ''/api/words/meanings/Hello''] \<and>
   error (handleSubmit js_ascii js_decimal False (answer 429 ''Too Many Requests'' JNull)
            (demo_input '' Hello '' 0)) = ''Word not found. Please try another word.'' \<and>
   wordData (handleSubmit js_ascii js_decimal False (quota_network demo_payload)
               (demo_input '' Hello '' 0))
     = JObj [(''word'', JStr ''hello''),
             (''meanings'', JArr [JObj [(''partOfSpeech'', JStr ''noun''),
                                        (''definition'', JStr ''a greeting'')]]),
             (''phonetic'', JStr [])] \<and>
   error (handleSubmit js_ascii js_decimal False (quota_network demo_payload)
            (demo_input '' Hello '' 0)) = []"
proof -
  let ?net = "answer 429 ''Too Many Requests'' JNull"
  let ?qn = "quota_network demo_payload"
  let ?s = "demo_input '' Hello '' 0"
  let ?a1 = "demo_api\<lparr>requests := [''/api/words/enhanced/Hello''], clock := 1120\<rparr>"
  have t': "trim js_ascii '' Hello '' = ''Hello''" by code_simp
  then have t: "trim js_ascii (word_wi ?s) = ''Hello''" by (simp add: demo_input_def)
  have k: "cacheKey js_ascii ''Hello'' = ''enhanced_hello''" by code_simp
  have e: "enhanced_endpoint js_ascii ''Hello'' = ''/words/enhanced/Hello''" by code_simp
  have m: "meanings_endpoint js_ascii ''Hello'' = ''/words/meanings/Hello''" by code_simp
  have reach1: "trim js_ascii (word_wi ?s) \<noteq> []" by (simp add: t)
  have reach2: "False \<or> \<not> js_ge (guestApiCount ?s) GUEST_API_LIMIT"
    by (simp add: demo_input_def GUEST_API_LIMIT_def js_ge_def)
  have quota: "getEnhancedWordInfo js_ascii ?net (trim js_ascii (word_wi ?s)) (api ?s)
                 = (?a1, Inl (Error ''AI_SERVICE_QUOTA_EXCEEDED''))"
    by (simp add: t t' getEnhancedWordInfo_def fresh_cached_def k e request_def answer_def
          handle_response_def ok_def try_catch_def demo_input_def demo_api_def Let_def)
  have rej: "isl (snd (getWordMeanings js_ascii ?net (trim js_ascii (word_wi ?s)) ?a1))"
    by (simp add: t t' getWordMeanings_def m request_def answer_def handle_response_def ok_def
          try_catch_def demo_api_def Let_def)
  have quota2: "getEnhancedWordInfo js_ascii ?qn (trim js_ascii (word_wi ?s)) (api ?s)
                 = (?a1, Inl (Error ''AI_SERVICE_QUOTA_EXCEEDED''))"
    by (simp add: t t' getEnhancedWordInfo_def fresh_cached_def k e request_def quota_network_def
          handle_response_def ok_def try_catch_def demo_input_def demo_api_def Let_def)
  have res: "snd (getWordMeanings js_ascii ?qn (trim js_ascii (word_wi ?s)) ?a1) = Inr demo_payload"
    by (simp add: t t' getWordMeanings_def m request_def quota_network_def handle_response_def
          ok_def try_catch_def demo_api_def Let_def)
  have mw: "member demo_payload ''word'' = Inr (JStr ''hello'')"
    and mm: "member demo_payload ''meanings'' =
               Inr (JArr [JObj [(''partOfSpeech'', JStr ''noun''),
                                (''definition'', JStr ''a greeting'')]])"
    by (simp_all add: demo_payload_def)
  show ?thesis
    using submit_quota_falls_back [OF reach1 reach2 quota, of js_decimal] rej
          submit_quota_falls_back [OF reach1 reach2 quota2, of js_decimal] res mw mm
    by (simp add: t t' e m not_found_def demo_input_def demo_api_def)
qed

text \<open>
  Adding one to a counter does not always move it: at \<open>- 2 ^ 54\<close> the sum rounds back.
\<close>

lemma js_plus_rounds: "js_plus (Finite (- (2 ^ 54))) 1 = Finite (- (2 ^ 54))"
  by code_simp




section \<open>Properties of the review session\<close>

text \<open>
  Claim C4. Take a rating submission that reaches \<open>recordCardReview\<close> (no review is in
  flight and the index is inside the list of cards) and whose call succeeds. It sends
  the identifiers of the current card with the rating. If the index is smaller than
  the last one, the index grows by one, the answer is hidden and \<open>onComplete\<close> is not
  called; if the card is the last one, \<open>onComplete\<close> is called once and the index stays.
\<close>

theorem rating_advances_or_completes:
  assumes "\<not> reviewing s" and "currentIndex s < length (cards s)"
  shows "recorded (handleRating (Inr u) rating s) =
           recorded s @ [(collectionId (cards s ! currentIndex s),
                          id_card (cards s ! currentIndex s), rating)] \<and>
         (currentIndex s + 1 < length (cards s) \<longrightarrow>
            currentIndex (handleRating (Inr u) rating s) = currentIndex s + 1 \<and>
            \<not> showAnswer (handleRating (Inr u) rating s) \<and>
            completed (handleRating (Inr u) rating s) = completed s) \<and>
         (currentIndex s + 1 = length (cards s) \<longrightarrow>
            completed (handleRating (Inr u) rating s) = completed s + 1 \<and>
            currentIndex (handleRating (Inr u) rating s) = currentIndex s)"
  using assms
  by (auto simp: handleRating_def Let_def onComplete_def showToast_def)

text \<open>Two due cards, rated Again (1): on the first, then on the second.\<close>

theorem rating_advances_or_completes_witness:
  "currentIndex (handleRating (Inr ()) 1 (demo_session [demo_card ''a'', demo_card ''b''] 0)) = 1 \<and>
   \<not> showAnswer (handleRating (Inr ()) 1 (demo_session [demo_card ''a'', demo_card ''b''] 0)) \<and>
   recorded (handleRating (Inr ()) 1 (demo_session [demo_card ''a'', demo_card ''b''] 0))
     = [(''c1'', ''a'', 1)] \<and>
   completed (handleRating (Inr ()) 1 (demo_session [demo_card ''a'', demo_card ''b''] 0)) = 0 \<and>
   completed (handleRating (Inr ()) 1 (demo_session [demo_card ''a'', demo_card ''b''] 1)) = 1"
  using rating_advances_or_completes [of "demo_session [demo_card ''a'', demo_card ''b''] 0" "()" 1]
        rating_advances_or_completes [of "demo_session [demo_card ''a'', demo_card ''b''] 1" "()" 1]
  by (simp add: demo_session_def demo_card_def)

text \<open>
  Claim C8. When the fetch of the due cards resolves with an empty list,
  \<open>loadDueCards\<close> calls \<open>onComplete\<close> once and does not call \<open>onClose\<close>; afterwards the
  loading flag is off, the list of cards is empty and the component renders nothing.
\<close>

theorem empty_due_list_completes:
  "completed (loadDueCards (Inr []) s) = completed s + 1 \<and>
   closed (loadDueCards (Inr []) s) = closed s \<and>
   cards (loadDueCards (Inr []) s) = [] \<and>
   \<not> loading_rs (loadDueCards (Inr []) s) \<and>
   render (loadDueCards (Inr []) s) = Nothing"
  by (simp add: loadDueCards_def render_def onComplete_def showToast_def)

theorem empty_due_list_completes_witness:
  "completed (loadDueCards (Inr []) (demo_session [demo_card ''a''] 0)) = 1 \<and>
   render (loadDueCards (Inr []) (demo_session [demo_card ''a''] 0)) = Nothing"
  using empty_due_list_completes [of "demo_session [demo_card ''a''] 0"]
  by (simp add: demo_session_def)

section \<open>Properties of the root controller\<close>

text \<open>
  Claim C7. Switching to a view \<open>v\<close> sets the view and pushes its path, which is \<open>/\<close>,
  \<open>/collections\<close> or \<open>/learning\<close>: the path becomes the current one, the path left
  becomes the nearest entry behind it, and no entry is ahead. The \<open>popstate\<close> handler
  on that path, and the initial view computed from it, give \<open>v\<close> back. Going back in
  the browser after a switch restores the path left and the view of that path. In
  particular, from the path \<open>/\<close>, switching to the collections and going back ends
  on the path \<open>/\<close> in the learn view.
\<close>

theorem view_path_round_trip:
  "view (handleSwitchView v s) = v \<and>
   pathname (handleSwitchView v s) = nextPath v \<and>
   back_entries (handleSwitchView v s) = pathname s # back_entries s \<and>
   forward_entries (handleSwitchView v s) = [] \<and>
   view (handlePopState (s\<lparr>pathname := nextPath v\<rparr>)) = v \<and>
   getInitialView (nextPath v) = v \<and>
   nextPath Learn = ''/'' \<and> nextPath Collections = ''/collections'' \<and>
   nextPath Learning = ''/learning'' \<and>
   pathname (browser_back (handleSwitchView v s)) = pathname s \<and>
   back_entries (browser_back (handleSwitchView v s)) = back_entries s \<and>
   view (browser_back (handleSwitchView v s)) = getInitialView (pathname s) \<and>
   view (browser_back (handleSwitchView v (handleSwitchView v0 s))) = v0 \<and>
   (pathname s = ''/'' \<longrightarrow>
      pathname (handleSwitchView Collections s) = ''/collections'' \<and>
      view (browser_back (handleSwitchView Collections s)) = Learn \<and>
      pathname (browser_back (handleSwitchView Collections s)) = ''/'')"
  by (cases v; cases v0)
     (simp_all add: handleSwitchView_def pushState_def nextPath_def handlePopState_def
        getInitialView_def browser_back_def)

theorem view_path_round_trip_witness:
  "view (browser_back (handleSwitchView Collections demo_app)) = Learn \<and>
   pathname (browser_back (handleSwitchView Collections demo_app)) = ''/'' \<and>
   back_entries (handleSwitchView Learning demo_app) = [''/''] \<and>
   view (handlePopState (demo_app\<lparr>pathname := nextPath Learning\<rparr>)) = Learning"
proof -
  have p: "pathname demo_app = ''/''" "back_entries demo_app = []"
    by (simp_all add: demo_app_def)
  from view_path_round_trip [of Learning demo_app Learn] p show ?thesis
    by (simp add: nextPath_def)
qed

lemma handleMeaningSelect_failure:
  assumes "generateLearningCard env (targetWord ov s) m = Inl e"
  shows "handleMeaningSelect env m ov s =
           s\<lparr>generated := generated s @ [(targetWord ov s, m)],
             toasts_app := toasts_app s @
               [(''Failed to generate learning card. Please try again.'', ''error'')],
             loading_app := False\<rparr>"
  using assms
  by (simp add: handleMeaningSelect_def handleMeaningSelect_call_def
        handleMeaningSelect_settle_def)

lemma handleMeaningSelect_success:
  assumes "generateLearningCard env (targetWord ov s) m = Inr data"
  shows "learningCard (handleMeaningSelect env m ov s) = Some data \<and>
         step (handleMeaningSelect env m ov s) = 3 \<and>
         \<not> loading_app (handleMeaningSelect env m ov s) \<and>
         generated (handleMeaningSelect env m ov s) = generated s @ [(targetWord ov s, m)] \<and>
         toasts_app (handleMeaningSelect env m ov s) = toasts_app s"
  using assms
  by (auto simp: handleMeaningSelect_def handleMeaningSelect_call_def
        handleMeaningSelect_settle_def handleWordLearned_def split: sum.splits)

text \<open>
  Claim C6, as amended. A meaning selection sets the loading flag and calls
  \<open>generateLearningCard\<close> with the target word and the meaning: the state while the
  request is in flight has the flag on and the call logged, and the handler is what
  follows from that state. When the call resolves, the card is stored, the step
  becomes 3 and the loading flag is off. When it rejects, the error toast is shown,
  the loading flag is off, no card is stored and the step is the one the selection
  started from. A search submission that brings a meaning (selected or custom) is
  such a selection, for the submitted word: on failure the step stays where the
  submission was made, which is step 1, and on success it becomes 3. A search
  submission without a meaning makes no call and goes to step 2, where a selection
  that fails stays at step 2.
\<close>

theorem meaning_select_outcome:
  "handleMeaningSelect env m ov s =
     handleMeaningSelect_settle env (targetWord ov s) m (handleMeaningSelect_call m ov s) \<and>
   loading_app (handleMeaningSelect_call m ov s) \<and>
   generated (handleMeaningSelect_call m ov s) = generated s @ [(targetWord ov s, m)] \<and>
   step (handleMeaningSelect_call m ov s) = step s \<and>
   generated (handleMeaningSelect env m ov s) = generated s @ [(targetWord ov s, m)] \<and>
   \<not> loading_app (handleMeaningSelect env m ov s) \<and>
   (\<forall>data. generateLearningCard env (targetWord ov s) m = Inr data \<longrightarrow>
      learningCard (handleMeaningSelect env m ov s) = Some data \<and>
      step (handleMeaningSelect env m ov s) = 3 \<and>
      toasts_app (handleMeaningSelect env m ov s) = toasts_app s) \<and>
   (\<forall>e. generateLearningCard env (targetWord ov s) m = Inl e \<longrightarrow>
      step (handleMeaningSelect env m ov s) = step s \<and>
      learningCard (handleMeaningSelect env m ov s) = learningCard s \<and>
      toasts_app (handleMeaningSelect env m ov s) =
        toasts_app s @ [(''Failed to generate learning card. Please try again.'', ''error'')]) \<and>
   (or_else sel cus \<noteq> [] \<longrightarrow>
      handleWordSubmit env w ms sel cus s =
        handleMeaningSelect env (or_else sel cus) (Some w) (s\<lparr>word_app := w, meanings := ms\<rparr>) \<and>
      generated (handleWordSubmit env w ms sel cus s) = generated s @ [(w, or_else sel cus)] \<and>
      \<not> loading_app (handleWordSubmit env w ms sel cus s)) \<and>
   (\<forall>e. or_else sel cus \<noteq> [] \<and> generateLearningCard env w (or_else sel cus) = Inl e \<longrightarrow>
      step (handleWordSubmit env w ms sel cus s) = step s \<and>
      learningCard (handleWordSubmit env w ms sel cus s) = learningCard s \<and>
      toasts_app (handleWordSubmit env w ms sel cus s) =
        toasts_app s @ [(''Failed to generate learning card. Please try again.'', ''error'')]) \<and>
   (\<forall>data. or_else sel cus \<noteq> [] \<and> generateLearningCard env w (or_else sel cus) = Inr data \<longrightarrow>
      step (handleWordSubmit env w ms sel cus s) = 3 \<and>
      learningCard (handleWordSubmit env w ms sel cus s) = Some data) \<and>
   (or_else sel cus = [] \<longrightarrow>
      handleWordSubmit env w ms sel cus s = s\<lparr>word_app := w, meanings := ms, step := 2\<rparr>)"
proof -
  let ?s1 = "s\<lparr>word_app := w, meanings := ms\<rparr>"
  have tw: "targetWord (Some w) ?s1 = w" by (simp add: targetWord_def)
  have 1: "handleMeaningSelect env m ov s =
     handleMeaningSelect_settle env (targetWord ov s) m (handleMeaningSelect_call m ov s)"
    by (simp add: handleMeaningSelect_def)
  have 2: "loading_app (handleMeaningSelect_call m ov s) \<and>
     generated (handleMeaningSelect_call m ov s) = generated s @ [(targetWord ov s, m)] \<and>
     step (handleMeaningSelect_call m ov s) = step s"
    by (simp add: handleMeaningSelect_call_def)
  have 3: "generated (handleMeaningSelect env m ov s) = generated s @ [(targetWord ov s, m)] \<and>
     \<not> loading_app (handleMeaningSelect env m ov s)"
    by (cases "generateLearningCard env (targetWord ov s) m")
       (simp_all add: handleMeaningSelect_failure handleMeaningSelect_success)
  have 4: "learningCard (handleMeaningSelect env m ov s) = Some data \<and>
      step (handleMeaningSelect env m ov s) = 3 \<and>
      toasts_app (handleMeaningSelect env m ov s) = toasts_app s"
    if "generateLearningCard env (targetWord ov s) m = Inr data" for data
    using handleMeaningSelect_success [OF that] by simp
  have 5: "step (handleMeaningSelect env m ov s) = step s \<and>
      learningCard (handleMeaningSelect env m ov s) = learningCard s \<and>
      toasts_app (handleMeaningSelect env m ov s) =
        toasts_app s @ [(''Failed to generate learning card. Please try again.'', ''error'')]"
    if "generateLearningCard env (targetWord ov s) m = Inl e" for e
    by (simp add: handleMeaningSelect_failure [OF that])
  have sub: "handleWordSubmit env w ms sel cus s =
        handleMeaningSelect env (or_else sel cus) (Some w) ?s1"
    if "or_else sel cus \<noteq> []"
    using that by (simp add: handleWordSubmit_def)
  have 6: "generated (handleWordSubmit env w ms sel cus s) = generated s @ [(w, or_else sel cus)] \<and>
      \<not> loading_app (handleWordSubmit env w ms sel cus s)"
    if "or_else sel cus \<noteq> []"
  proof (cases "generateLearningCard env w (or_else sel cus)")
    case (Inl e)
    then have "generateLearningCard env (targetWord (Some w) ?s1) (or_else sel cus) = Inl e"
      by (simp add: tw)
    from handleMeaningSelect_failure [OF this] show ?thesis by (simp add: sub [OF that] tw)
  next
    case (Inr data)
    then have "generateLearningCard env (targetWord (Some w) ?s1) (or_else sel cus) = Inr data"
      by (simp add: tw)
    from handleMeaningSelect_success [OF this] show ?thesis by (simp add: sub [OF that] tw)
  qed
  have 7: "step (handleWordSubmit env w ms sel cus s) = step s \<and>
      learningCard (handleWordSubmit env w ms sel cus s) = learningCard s \<and>
      toasts_app (handleWordSubmit env w ms sel cus s) =
        toasts_app s @ [(''Failed to generate learning card. Please try again.'', ''error'')]"
    if h: "or_else sel cus \<noteq> [] \<and> generateLearningCard env w (or_else sel cus) = Inl e" for e
  proof -
    from h have "generateLearningCard env (targetWord (Some w) ?s1) (or_else sel cus) = Inl e"
      by (simp add: tw)
    from handleMeaningSelect_failure [OF this] h show ?thesis by (simp add: sub)
  qed
  have 8: "step (handleWordSubmit env w ms sel cus s) = 3 \<and>
      learningCard (handleWordSubmit env w ms sel cus s) = Some data"
    if h: "or_else sel cus \<noteq> [] \<and> generateLearningCard env w (or_else sel cus) = Inr data"
    for data
  proof -
    from h have "generateLearningCard env (targetWord (Some w) ?s1) (or_else sel cus) = Inr data"
      by (simp add: tw)
    from handleMeaningSelect_success [OF this] h show ?thesis by (simp add: sub)
  qed
  have 9: "handleWordSubmit env w ms sel cus s = s\<lparr>word_app := w, meanings := ms, step := 2\<rparr>"
    if "or_else sel cus = []"
    using that by (simp add: handleWordSubmit_def)
  from 1 2 3 4 5 sub 6 7 8 9 show ?thesis by blast
qed

text \<open>
  A selection on the meaning-selection screen with each of the two backends, and a
  search submission at step 1 that brings a meaning and whose card generation fails.
\<close>

theorem meaning_select_outcome_witness:
  "step (handleMeaningSelect failing_backend ''to move fast'' None
           (demo_app\<lparr>step := 2, word_app := ''run''\<rparr>)) = 2 \<and>
   step (handleMeaningSelect working_backend ''to move fast'' None
           (demo_app\<lparr>step := 2, word_app := ''run''\<rparr>)) = 3 \<and>
   step (handleWordSubmit failing_backend ''run'' (JArr []) (Some ''to move fast'') (Some [])
           demo_app) = 1 \<and>
   generated (handleWordSubmit failing_backend ''run'' (JArr []) (Some ''to move fast'') (Some [])
                demo_app) = [(''run'', ''to move fast'')]"
proof -
  let ?s2 = "demo_app\<lparr>step := 2, word_app := ''run''\<rparr>"
  let ?m = "''to move fast''"
  have oe: "or_else (Some ?m) (Some []) = ?m"
    by (simp add: or_else_def)
  have d: "step demo_app = 1" "generated demo_app = []" by (simp_all add: demo_app_def)
  have ha: "generateLearningCard failing_backend (targetWord None ?s2) ?m
              = Inl (Error ''HTTP 500: Internal Server Error'')"
    by (simp add: failing_backend_def)
  have hb: "generateLearningCard working_backend (targetWord None ?s2) ?m
              = Inr \<lparr> word = ''run'', meaning = ?m, example = ''Hello, world.'',
                      imageUrl = ''https://img.example/hello.png'' \<rparr>"
    by (simp add: working_backend_def targetWord_def)
  have hc1: "or_else (Some ?m) (Some []) \<noteq> []" by (simp add: oe)
  have hc: "or_else (Some ?m) (Some []) \<noteq> [] \<and>
            generateLearningCard failing_backend ''run'' (or_else (Some ?m) (Some []))
              = Inl (Error ''HTTP 500: Internal Server Error'')"
    by (simp add: oe failing_backend_def)
  note Ta = meaning_select_outcome [of failing_backend ?m None ?s2]
  note Tb = meaning_select_outcome [of working_backend ?m None ?s2]
  note Tc = meaning_select_outcome [of failing_backend ?m None demo_app "Some ?m" "Some []"
              "''run''" "JArr []"]
  note a = Ta [THEN conjunct2, THEN conjunct2, THEN conjunct2, THEN conjunct2, THEN conjunct2,
               THEN conjunct2, THEN conjunct2, THEN conjunct1, THEN spec, THEN mp, OF ha]
  note b = Tb [THEN conjunct2, THEN conjunct2, THEN conjunct2, THEN conjunct2, THEN conjunct2,
               THEN conjunct2, THEN conjunct1, THEN spec, THEN mp, OF hb]
  note c1 = Tc [THEN conjunct2, THEN conjunct2, THEN conjunct2, THEN conjunct2, THEN conjunct2,
                THEN conjunct2, THEN conjunct2, THEN conjunct2, THEN conjunct1, THEN mp, OF hc1]
  note c2 = Tc [THEN conjunct2, THEN conjunct2, THEN conjunct2, THEN conjunct2, THEN conjunct2,
                THEN conjunct2, THEN conjunct2, THEN conjunct2, THEN conjunct2, THEN conjunct1,
                THEN spec, THEN mp, OF hc]
  have 1: "step (handleMeaningSelect failing_backend ?m None ?s2) = 2"
    using a by simp
  have 2: "step (handleMeaningSelect working_backend ?m None ?s2) = 3"
    using b by simp
  have 3: "step (handleWordSubmit failing_backend ''run'' (JArr []) (Some ?m) (Some []) demo_app) = 1"
    using c2 d by simp
  have 4: "generated (handleWordSubmit failing_backend ''run'' (JArr []) (Some ?m) (Some [])
                demo_app) = [(''run'', ?m)]"
    using c1 [THEN conjunct2, THEN conjunct1] d by (simp add: oe)
  from 1 2 3 4 show ?thesis by simp
qed

text \<open>
  Claim C6 as stated fails when the meaning comes with the search submission: the
  controller is at step 1, \<open>handleWordSubmit\<close> calls \<open>handleMeaningSelect\<close>, the card
  generation fails, the toast is shown, and the step is still 1, not 2.
\<close>

theorem meaning_select_step_counterexample:
  "step demo_app = 1 \<and>
   step (handleWordSubmit failing_backend ''run'' (JArr []) (Some ''to move fast'') (Some [])
           demo_app) \<noteq> 2 \<and>
   toasts_app (handleWordSubmit failing_backend ''run'' (JArr []) (Some ''to move fast'') (Some [])
                 demo_app)
     = [(''Failed to generate learning card. Please try again.'', ''error'')]"
  by (simp add: handleWordSubmit_def handleMeaningSelect_def handleMeaningSelect_call_def
        handleMeaningSelect_settle_def targetWord_def or_else_def failing_backend_def demo_app_def)

end
